theory Spec2Isabelle
  imports Main "HOL-Library.Word" "HOL-Library.Signed_Division"
begin

section \<open>Machine integers and global state\<close>

text \<open>
  The firmware keeps its values in \<^verbatim>\<open>uint8_t\<close> variables and computes in C \<^verbatim>\<open>int\<close>
  (integer promotion). An \<^verbatim>\<open>uint8_t\<close> is an \<open>8 word\<close>; an \<^verbatim>\<open>int\<close> expression is an
  \<open>int\<close>: every operand is the value of some \<^verbatim>\<open>uint8_t\<close> or a small constant, so no
  32-bit expression of the program can overflow. Storing an \<^verbatim>\<open>int\<close> into an
  \<^verbatim>\<open>uint8_t\<close> (a return, an initialisation) is \<open>word_of_int\<close>, which reduces modulo 256.
  C division and remainder truncate towards zero: \<open>sdiv\<close> and \<open>smod\<close>.
\<close>

type_synonym u8 = "8 word"

text \<open>
  The three module-level variables of \<^verbatim>\<open>main.cpp\<close>: the bitmap of expander chips found
  on the bus, the number of pins driven on every output chip, and the first output chip.
\<close>

record globals =
  g_mcps_found :: u8
  g_mcp_output_pins :: u8
  g_mcp_output_start :: u8

definition MCP_COUNT :: u8 where
  "MCP_COUNT = 8"

definition MCP_PIN_COUNT :: int where
  "MCP_PIN_COUNT = 16"

definition INVALID_OUTPUT_TYPE :: u8 where
  "INVALID_OUTPUT_TYPE = 99"

text \<open>
  Arduino's \<^verbatim>\<open>bitRead(value, bit)\<close> is \<^verbatim>\<open>((value) >> (bit)) & 0x01\<close>; the program
  calls it with a loop counter that is never negative.
\<close>

definition bitRead :: "u8 \<Rightarrow> int \<Rightarrow> bool" where
  "bitRead v i = bit v (nat i)"

section \<open>Addressing\<close>

definition getMinInputIndex :: u8 where
  "getMinInputIndex = 1"

text \<open>
  The loop of \<^verbatim>\<open>getMaxInputIndex\<close>, entered with the counter \<open>i\<close>:
  \<^verbatim>\<open>for (int i = g_mcp_output_start - 1; i >= 0; i--)\<close>.
\<close>

function getMaxInputIndex_loop :: "globals \<Rightarrow> int \<Rightarrow> u8" where
  "getMaxInputIndex_loop g i =
     (if i \<ge> 0 then
        (if bitRead (g_mcps_found g) i then word_of_int ((i + 1) * MCP_PIN_COUNT)
         else getMaxInputIndex_loop g (i - 1))
      else getMinInputIndex)"
  by pat_completeness auto
termination
  by (relation "measure (\<lambda>(g, i). nat (i + 1))") auto

definition getMaxInputIndex :: "globals \<Rightarrow> u8" where
  "getMaxInputIndex g = getMaxInputIndex_loop g (uint (g_mcp_output_start g) - 1)"

definition getMinOutputIndex :: "globals \<Rightarrow> u8" where
  "getMinOutputIndex g = word_of_int (uint (g_mcp_output_start g) * MCP_PIN_COUNT + 1)"

text \<open>
  The loop of \<^verbatim>\<open>getMaxOutputIndex\<close>:
  \<^verbatim>\<open>for (int i = 7; i >= g_mcp_output_start; i--)\<close>.
\<close>

function getMaxOutputIndex_loop :: "globals \<Rightarrow> int \<Rightarrow> u8" where
  "getMaxOutputIndex_loop g i =
     (if i \<ge> uint (g_mcp_output_start g) then
        (if bitRead (g_mcps_found g) i then
           word_of_int ((i + 1 - uint (g_mcp_output_start g)) * uint (g_mcp_output_pins g)
                        + uint (getMinOutputIndex g) - 1)
         else getMaxOutputIndex_loop g (i - 1))
      else getMinOutputIndex g)"
  by pat_completeness auto
termination
  by (relation "measure (\<lambda>(g, i). nat (i + 1))") (auto simp: order_trans [OF uint_ge_0])

definition getMaxOutputIndex :: "globals \<Rightarrow> u8" where
  "getMaxOutputIndex g = getMaxOutputIndex_loop g 7"

definition isInputMcp :: "globals \<Rightarrow> u8 \<Rightarrow> bool" where
  "isInputMcp g mcp = (mcp < g_mcp_output_start g)"

definition isOutputMcp :: "globals \<Rightarrow> u8 \<Rightarrow> bool" where
  "isOutputMcp g mcp = (\<not> isInputMcp g mcp)"

text \<open>
  A C division by zero is undefined behaviour and \<^verbatim>\<open>strcmp\<close> on a null pointer reads
  address 0; both stop the firmware. They are results of the model.
\<close>

datatype fault = DivideByZero | NullPointer

text \<open>
  \<^verbatim>\<open>outpIndex2Mcp(int index)\<close> and \<^verbatim>\<open>outpIndex2Pin(int index)\<close>: the divisor is
  \<^verbatim>\<open>g_mcp_output_pins\<close>, which the configuration handler stores unchecked.
\<close>

definition outpIndex2Mcp :: "globals \<Rightarrow> int \<Rightarrow> fault + u8" where
  "outpIndex2Mcp g index =
     (if g_mcp_output_pins g = 0 then Inl DivideByZero
      else Inr (word_of_int ((index - uint (getMinOutputIndex g)) sdiv uint (g_mcp_output_pins g)
                             + uint (g_mcp_output_start g))))"

definition outpIndex2Pin :: "globals \<Rightarrow> int \<Rightarrow> fault + u8" where
  "outpIndex2Pin g index =
     (if g_mcp_output_pins g = 0 then Inl DivideByZero
      else Inr (word_of_int ((index - uint (getMinOutputIndex g)) smod uint (g_mcp_output_pins g))))"

section \<open>JSON documents, request entries and collaborators\<close>

text \<open>
  Documents the firmware builds (schemas, event records). The free-text
  \<^verbatim>\<open>"description"\<close> members of the schemas are left out; every other member is kept.
  The fixed capacity of a \<^verbatim>\<open>StaticJsonDocument\<close> is not modelled.
\<close>

datatype json = JInt int | JString string | JArray "json list" | JObject "(string \<times> json) list"

definition containsKey :: "json \<Rightarrow> string \<Rightarrow> bool" where
  "containsKey doc k = (case doc of JObject kvs \<Rightarrow> map_of kvs k \<noteq> None | _ \<Rightarrow> False)"

text \<open>
  A member of a request entry, as the handlers observe it through the JSON library:
  \<open>Absent\<close> when \<^verbatim>\<open>containsKey\<close> is false, \<open>Null\<close> when the key is there and
  \<^verbatim>\<open>isNull()\<close> holds, and otherwise \<open>Value v\<close>, where \<open>v\<close> is what the conversion
  the handler applies returns: \<^verbatim>\<open>as<uint8_t>()\<close>, \<^verbatim>\<open>as<int>()\<close>, or the
  \<^verbatim>\<open>const char*\<close> handed to \<^verbatim>\<open>strcmp\<close> (\<open>None\<close> is the null pointer the library
  returns for a value that is not a string). A null member converts to 0 and to the
  null pointer.
\<close>

datatype 'a field = Absent | Null | Value 'a

fun as_uint8 :: "u8 field \<Rightarrow> u8" where
  "as_uint8 (Value n) = n"
| "as_uint8 _ = 0"

fun as_cstr :: "string option field \<Rightarrow> string option" where
  "as_cstr (Value c) = c"
| "as_cstr _ = None"

record output_config =
  cfg_index :: "u8 field"
  cfg_type :: "string option field"
  cfg_timerSeconds :: "int field"
  cfg_interlockIndex :: "u8 field"

record output_command =
  cmd_index :: "u8 field"
  cmd_type :: "string option field"
  cmd_command :: "string option field"

text \<open>
  The constants of the input and output handler libraries' headers
  (\<^verbatim>\<open>OXRS_Input.h\<close>, \<^verbatim>\<open>OXRS_Output.h\<close>), which are not part of this repository,
  are parameters.
\<close>

record input_lib =
  BUTTON :: u8
  CONTACT :: u8
  PRESS :: u8
  ROTARY :: u8
  SECURITY :: u8
  SWITCH :: u8
  TOGGLE :: u8
  HOLD_EVENT :: u8
  LOW_EVENT :: u8
  HIGH_EVENT :: u8
  TAMPER_EVENT :: u8
  SHORT_EVENT :: u8
  FAULT_EVENT :: u8

record output_lib =
  MOTOR :: u8
  RELAY :: u8
  TIMER :: u8
  RELAY_ON :: u8
  RELAY_OFF :: u8
  DEFAULT_TIMER_SECS :: int

text \<open>
  What the handlers read from their collaborators: the configured type of an output pin
  (\<^verbatim>\<open>oxrsOutput[mcp].getType(pin)\<close>), the level of a pin
  (\<^verbatim>\<open>mcp23017[mcp].digitalRead(pin)\<close>) and whether the transport delivers a record
  (\<^verbatim>\<open>oxrs.publishStatus\<close>).
\<close>

record collab =
  getType :: "u8 \<Rightarrow> u8 \<Rightarrow> u8"
  digitalRead :: "u8 \<Rightarrow> u8 \<Rightarrow> u8"
  publishStatus :: "(string \<times> json) list \<Rightarrow> bool"

text \<open>
  What the handlers do to their collaborators, in the order of the calls: a log line, the
  setters of the output handler of chip \<open>mcp\<close> (first argument) for a pin,
  \<^verbatim>\<open>handleCommand(mcp, pin, command)\<close>, a pin write of the chip driver, a record given to
  the transport, and a record printed on the serial port when the transport fails.
\<close>

datatype action =
    Println string
  | SetType u8 u8 u8
  | SetTimer u8 u8 int
  | SetInterlock u8 u8 u8
  | HandleCommand u8 u8 u8
  | DigitalWrite u8 u8 u8
  | PublishStatus "(string \<times> json) list"
  | SerialFailover "(string \<times> json) list"

fun isPrintln :: "action \<Rightarrow> bool" where
  "isPrintln (Println s) = True"
| "isPrintln _ = False"

fun isSetTimer :: "action \<Rightarrow> bool" where
  "isSetTimer (SetTimer mcp pin secs) = True"
| "isSetTimer _ = False"

fun isSetInterlock :: "action \<Rightarrow> bool" where
  "isSetInterlock (SetInterlock mcp pin other) = True"
| "isSetInterlock _ = False"

section \<open>Type and event names\<close>

definition createInputTypeEnum :: "string \<times> json" where
  "createInputTypeEnum =
     (''enum'', JArray [JString ''button'', JString ''contact'', JString ''press'',
        JString ''rotary'', JString ''security'', JString ''switch'', JString ''toggle''])"

definition getInputType :: "input_lib \<Rightarrow> u8 \<Rightarrow> string" where
  "getInputType L type =
     (if type = BUTTON L then ''button''
      else if type = CONTACT L then ''contact''
      else if type = PRESS L then ''press''
      else if type = ROTARY L then ''rotary''
      else if type = SECURITY L then ''security''
      else if type = SWITCH L then ''switch''
      else if type = TOGGLE L then ''toggle''
      else ''error'')"

definition getInputEventType :: "input_lib \<Rightarrow> u8 \<Rightarrow> u8 \<Rightarrow> string" where
  "getInputEventType L type state =
     (if type = BUTTON L then
        (if state = HOLD_EVENT L then ''hold''
         else if state = 1 then ''single''
         else if state = 2 then ''double''
         else if state = 3 then ''triple''
         else if state = 4 then ''quad''
         else if state = 5 then ''penta''
         else ''error'')
      else if type = CONTACT L then
        (if state = LOW_EVENT L then ''closed''
         else if state = HIGH_EVENT L then ''open''
         else ''error'')
      else if type = PRESS L then ''press''
      else if type = ROTARY L then
        (if state = LOW_EVENT L then ''up''
         else if state = HIGH_EVENT L then ''down''
         else ''error'')
      else if type = SECURITY L then
        (if state = HIGH_EVENT L then ''normal''
         else if state = LOW_EVENT L then ''alarm''
         else if state = TAMPER_EVENT L then ''tamper''
         else if state = SHORT_EVENT L then ''short''
         else if state = FAULT_EVENT L then ''fault''
         else ''error'')
      else if type = SWITCH L then
        (if state = LOW_EVENT L then ''on''
         else if state = HIGH_EVENT L then ''off''
         else ''error'')
      else if type = TOGGLE L then ''toggle''
      else ''error'')"

definition getOutputType :: "output_lib \<Rightarrow> u8 \<Rightarrow> string" where
  "getOutputType L type =
     (if type = MOTOR L then ''motor''
      else if type = RELAY L then ''relay''
      else if type = TIMER L then ''timer''
      else ''error'')"

definition getOutputEventType :: "output_lib \<Rightarrow> u8 \<Rightarrow> u8 \<Rightarrow> string" where
  "getOutputEventType L type state =
     (if state = RELAY_ON L then ''on''
      else if state = RELAY_OFF L then ''off''
      else ''error'')"

definition createOutputTypeEnum :: "string \<times> json" where
  "createOutputTypeEnum =
     (''enum'', JArray [JString ''relay'', JString ''motor'', JString ''timer''])"

text \<open>
  \<^verbatim>\<open>parseOutputType(const char *outputType)\<close> returns the type and the line it logs
  when no name matches.
\<close>

definition parseOutputType :: "output_lib \<Rightarrow> string option \<Rightarrow> fault + (u8 \<times> action list)" where
  "parseOutputType L outputType =
     (case outputType of
        None \<Rightarrow> Inl NullPointer
      | Some s \<Rightarrow>
          if s = ''relay'' then Inr (RELAY L, [])
          else if s = ''motor'' then Inr (MOTOR L, [])
          else if s = ''timer'' then Inr (TIMER L, [])
          else Inr (INVALID_OUTPUT_TYPE, [Println ''[stio] invalid output type'']))"

section \<open>Configuration schema\<close>

definition inputConfigSchema :: "globals \<Rightarrow> (string \<times> json) list" where
  "inputConfigSchema g =
     [(''defaultInputType'', JObject
         [(''title'', JString ''Default Input Type''), createInputTypeEnum]),
      (''inputs'', JObject
         [(''title'', JString ''Input Configuration''),
          (''type'', JString ''array''),
          (''items'', JObject
             [(''type'', JString ''object''),
              (''properties'', JObject
                 [(''index'', JObject
                     [(''title'', JString ''Index''),
                      (''type'', JString ''integer''),
                      (''minimum'', JInt (uint getMinInputIndex)),
                      (''maximum'', JInt (uint (getMaxInputIndex g)))]),
                  (''type'', JObject [(''title'', JString ''Type''), createInputTypeEnum]),
                  (''invert'', JObject
                     [(''title'', JString ''Invert''), (''type'', JString ''boolean'')]),
                  (''disabled'', JObject
                     [(''title'', JString ''Disabled''), (''type'', JString ''boolean'')])]),
              (''required'', JArray [JString ''index''])])])]"

definition outputConfigSchema :: "globals \<Rightarrow> (string \<times> json) list" where
  "outputConfigSchema g =
     [(''defaultOutputType'', JObject
         [(''title'', JString ''Default Output Type''), createOutputTypeEnum]),
      (''outputs'', JObject
         [(''title'', JString ''Output Configuration''),
          (''type'', JString ''array''),
          (''items'', JObject
             [(''type'', JString ''object''),
              (''properties'', JObject
                 [(''index'', JObject
                     [(''title'', JString ''Index''),
                      (''type'', JString ''integer''),
                      (''minimum'', JInt (uint (getMinOutputIndex g))),
                      (''maximum'', JInt (uint (getMaxOutputIndex g)))]),
                  (''type'', JObject [(''title'', JString ''Type''), createOutputTypeEnum]),
                  (''timerSeconds'', JObject
                     [(''title'', JString ''Timer (seconds)''),
                      (''type'', JString ''integer''),
                      (''minimum'', JInt 1)]),
                  (''interlockIndex'', JObject
                     [(''title'', JString ''Interlock With Index''),
                      (''type'', JString ''integer''),
                      (''minimum'', JInt (uint (getMinOutputIndex g))),
                      (''maximum'', JInt (uint (getMaxOutputIndex g)))])]),
              (''required'', JArray [JString ''index''])])])]"

text \<open>\<^verbatim>\<open>setConfigSchema\<close>: the document handed to \<^verbatim>\<open>oxrs.setConfigSchema\<close>.\<close>

definition setConfigSchema :: "globals \<Rightarrow> json" where
  "setConfigSchema g =
     JObject
       ([(''ioConfig'', JObject
            [(''title'', JString ''Configuration Of Input/Output Ports. ! HINT ! A restart is required before changes will take effect! Reload this browser page after restart has finished!''),
             (''type'', JString ''string''),
             (''enum'', JArray [JString ''io_128_0'', JString ''io_96_32'', JString ''io_64_64'',
                JString ''io_32_96'', JString ''io_0_128''])]),
         (''outputsPerMcp'', JObject
            [(''title'', JString ''Number Of Outputs Per MCP. ! HINT ! A restart is required before changes will take effect!''),
             (''type'', JString ''integer''),
             (''minimum'', JInt 8),
             (''maximum'', JInt MCP_PIN_COUNT),
             (''multipleOf'', JInt 8)])]
        @ (if isInputMcp g 0 then inputConfigSchema g else [])
        @ (if isOutputMcp g (MCP_COUNT - 1) then outputConfigSchema g else []))"

text \<open>
  \<^verbatim>\<open>jsonIoConfig(const char *ioConfig)\<close>, the only assignment to
  \<^verbatim>\<open>g_mcp_output_start\<close> (which starts at \<^verbatim>\<open>MCP_COUNT\<close>).
\<close>

definition jsonIoConfig :: "globals \<Rightarrow> string option \<Rightarrow> fault + (globals \<times> action list)" where
  "jsonIoConfig g ioConfig =
     (case ioConfig of
        None \<Rightarrow> Inl NullPointer
      | Some s \<Rightarrow>
          if s = ''io_128_0'' then Inr (g\<lparr>g_mcp_output_start := 8\<rparr>, [])
          else if s = ''io_96_32'' then Inr (g\<lparr>g_mcp_output_start := 6\<rparr>, [])
          else if s = ''io_64_64'' then Inr (g\<lparr>g_mcp_output_start := 4\<rparr>, [])
          else if s = ''io_32_96'' then Inr (g\<lparr>g_mcp_output_start := 2\<rparr>, [])
          else if s = ''io_0_128'' then Inr (g\<lparr>g_mcp_output_start := 0\<rparr>, [])
          else Inr (g, [Println ''[stio] invalid ioConfig enum'']))"

section \<open>Configuration handler\<close>

text \<open>
  \<^verbatim>\<open>getOutputIndex\<close> returns 0 for a missing or out-of-range index, with the line it logs.
\<close>

definition getOutputIndex :: "globals \<Rightarrow> u8 field \<Rightarrow> u8 \<times> action list" where
  "getOutputIndex g json_index =
     (if json_index = Absent then (0, [Println ''[stio] missing output index''])
      else
        (let index = as_uint8 json_index in
         if index < getMinOutputIndex g \<or> index > getMaxOutputIndex g
         then (0, [Println ''[stio] invalid output index''])
         else (index, [])))"

text \<open>
  \<^verbatim>\<open>jsonOutputConfig\<close>, block by block. The \<^verbatim>\<open>type\<close> block: an unknown name is
  logged by \<^verbatim>\<open>parseOutputType\<close> and sets nothing.
\<close>

definition jsonOutputConfig_type ::
  "output_lib \<Rightarrow> output_config \<Rightarrow> u8 \<Rightarrow> u8 \<Rightarrow> fault + action list" where
  "jsonOutputConfig_type L json mcp pin =
     (if cfg_type json = Absent then Inr []
      else
        case parseOutputType L (as_cstr (cfg_type json)) of
          Inl f \<Rightarrow> Inl f
        | Inr (outputType, out) \<Rightarrow>
            Inr (out @ (if outputType \<noteq> INVALID_OUTPUT_TYPE
                        then [SetType mcp pin outputType] else [])))"

text \<open>The \<^verbatim>\<open>timerSeconds\<close> block.\<close>

definition jsonOutputConfig_timer ::
  "output_lib \<Rightarrow> output_config \<Rightarrow> u8 \<Rightarrow> u8 \<Rightarrow> action list" where
  "jsonOutputConfig_timer L json mcp pin =
     (case cfg_timerSeconds json of
        Absent \<Rightarrow> []
      | Null \<Rightarrow> [SetTimer mcp pin (DEFAULT_TIMER_SECS L)]
      | Value secs \<Rightarrow> [SetTimer mcp pin secs])"

text \<open>The \<^verbatim>\<open>interlockIndex\<close> block.\<close>

definition jsonOutputConfig_interlock ::
  "globals \<Rightarrow> output_config \<Rightarrow> u8 \<Rightarrow> u8 \<Rightarrow> action list \<times> fault option" where
  "jsonOutputConfig_interlock g json mcp pin =
     (case cfg_interlockIndex json of
        Absent \<Rightarrow> ([], None)
      | Null \<Rightarrow> ([SetInterlock mcp pin pin], None)
      | Value interlock_index \<Rightarrow>
          (case outpIndex2Mcp g (uint interlock_index) of
             Inl f \<Rightarrow> ([], Some f)
           | Inr interlock_mcp \<Rightarrow>
          (case outpIndex2Pin g (uint interlock_index) of
             Inl f \<Rightarrow> ([], Some f)
           | Inr interlock_pin \<Rightarrow>
               if interlock_mcp = mcp
               then ([SetInterlock mcp pin interlock_pin], None)
               else ([Println ''[stio] lock must be with pin on same mcp''], None))))"

text \<open>
  The whole function: the calls it makes, in order, and the fault that stopped it, if any.
\<close>

definition jsonOutputConfig ::
  "output_lib \<Rightarrow> globals \<Rightarrow> output_config \<Rightarrow> action list \<times> fault option" where
  "jsonOutputConfig L g json =
     (let (index, out0) = getOutputIndex g (cfg_index json) in
      if index = 0 then (out0, None)
      else
        case outpIndex2Mcp g (uint index) of Inl f \<Rightarrow> ([], Some f) | Inr mcp \<Rightarrow>
        case outpIndex2Pin g (uint index) of Inl f \<Rightarrow> ([], Some f) | Inr pin \<Rightarrow>
        case jsonOutputConfig_type L json mcp pin of Inl f \<Rightarrow> ([], Some f) | Inr out1 \<Rightarrow>
        let out2 = jsonOutputConfig_timer L json mcp pin;
            (out3, f) = jsonOutputConfig_interlock g json mcp pin
        in (out1 @ out2 @ out3, f))"

section \<open>Command handler and event publisher\<close>

definition publishOutputEvent :: "output_lib \<Rightarrow> collab \<Rightarrow> u8 \<Rightarrow> u8 \<Rightarrow> u8 \<Rightarrow> action list" where
  "publishOutputEvent L C index type state =
     (let json = [(''index'', JInt (uint index)),
                  (''type'', JString (getOutputType L type)),
                  (''event'', JString (getOutputEventType L type state))]
      in PublishStatus json # (if \<not> publishStatus C json then [SerialFailover json] else []))"

text \<open>The \<^verbatim>\<open>command\<close> block of \<^verbatim>\<open>jsonOutputCommand\<close>.\<close>

definition jsonOutputCommand_command ::
  "output_lib \<Rightarrow> collab \<Rightarrow> string option field \<Rightarrow> u8 \<Rightarrow> u8 \<Rightarrow> u8 \<Rightarrow> u8
     \<Rightarrow> action list \<times> fault option" where
  "jsonOutputCommand_command L C command index mcp pin type =
     (case command of
        Absent \<Rightarrow> ([], None)
      | Null \<Rightarrow> (publishOutputEvent L C index type (digitalRead C mcp pin), None)
      | Value None \<Rightarrow> ([], Some NullPointer)
      | Value (Some c) \<Rightarrow>
          if c = ''query'' then (publishOutputEvent L C index type (digitalRead C mcp pin), None)
          else if c = ''on'' then ([HandleCommand mcp pin (RELAY_ON L)], None)
          else if c = ''off'' then ([HandleCommand mcp pin (RELAY_OFF L)], None)
          else ([Println ''[stio] invalid command''], None))"

definition jsonOutputCommand ::
  "output_lib \<Rightarrow> collab \<Rightarrow> globals \<Rightarrow> output_command \<Rightarrow> action list \<times> fault option" where
  "jsonOutputCommand L C g json =
     (let (index, out0) = getOutputIndex g (cmd_index json) in
      if index = 0 then (out0, None)
      else
        case outpIndex2Mcp g (uint index) of Inl f \<Rightarrow> ([], Some f) | Inr mcp \<Rightarrow>
        case outpIndex2Pin g (uint index) of Inl f \<Rightarrow> ([], Some f) | Inr pin \<Rightarrow>
        let type = getType C mcp pin in
        if cmd_type json = Absent
        then jsonOutputCommand_command L C (cmd_command json) index mcp pin type
        else
          case parseOutputType L (as_cstr (cmd_type json)) of
            Inl f \<Rightarrow> ([], Some f)
          | Inr (parsed, out1) \<Rightarrow>
              if parsed \<noteq> type
              then (out1 @ [Println ''[stio] command type doesn't match configured type''], None)
              else
                (let (out2, f) =
                   jsonOutputCommand_command L C (cmd_command json) index mcp pin type
                 in (out1 @ out2, f)))"

text \<open>
  \<^verbatim>\<open>publishInputEvent\<close>: the record it builds, and the calls that publish it.
\<close>

definition publishInputEvent_json :: "input_lib \<Rightarrow> u8 \<Rightarrow> u8 \<Rightarrow> u8 \<Rightarrow> (string \<times> json) list" where
  "publishInputEvent_json L index type state =
     (let port = (word_of_int (((uint index - 1) sdiv 4) + 1) :: u8);
          channel = (word_of_int (uint index - ((uint port - 1) * 4)) :: u8)
      in [(''port'', JInt (uint port)),
          (''channel'', JInt (uint channel)),
          (''index'', JInt (uint index)),
          (''type'', JString (getInputType L type)),
          (''event'', JString (getInputEventType L type state))])"

definition publishInputEvent :: "input_lib \<Rightarrow> collab \<Rightarrow> u8 \<Rightarrow> u8 \<Rightarrow> u8 \<Rightarrow> action list" where
  "publishInputEvent L C index type state =
     (let json = publishInputEvent_json L index type state
      in PublishStatus json # (if \<not> publishStatus C json then [SerialFailover json] else []))"

definition inputEvent :: "input_lib \<Rightarrow> collab \<Rightarrow> u8 \<Rightarrow> u8 \<Rightarrow> u8 \<Rightarrow> u8 \<Rightarrow> action list" where
  "inputEvent L C id' input type state =
     (let mcp = id';
          index = (word_of_int ((MCP_PIN_COUNT * uint mcp) + uint input + 1) :: u8)
      in publishInputEvent L C index type state)"

text \<open>The index computed by \<^verbatim>\<open>outputEvent\<close> for chip \<open>id'\<close> and pin \<open>output\<close>.\<close>

definition outputEvent_index :: "globals \<Rightarrow> u8 \<Rightarrow> u8 \<Rightarrow> u8" where
  "outputEvent_index g id' output =
     (let mcp = id';
          pin = output;
          raw_index = (word_of_int ((uint mcp - uint (g_mcp_output_start g)) * uint (g_mcp_output_pins g)
                                    + uint (getMinOutputIndex g) - 1 + uint pin) :: u8);
          index = raw_index + 1
      in index)"

definition outputEvent ::
  "output_lib \<Rightarrow> collab \<Rightarrow> globals \<Rightarrow> u8 \<Rightarrow> u8 \<Rightarrow> u8 \<Rightarrow> u8 \<Rightarrow> action list" where
  "outputEvent L C g id' output type state =
     DigitalWrite id' output state
       # publishOutputEvent L C (outputEvent_index g id' output) type state"

section \<open>Present input chips\<close>

text \<open>
  Whether some chip is both found on the bus and on the input side of the boundary, read
  as the firmware's own loops over the chips do
  (\<^verbatim>\<open>bitRead(g_mcps_found, mcp)\<close>, \<^verbatim>\<open>isInputMcp(mcp)\<close> for \<open>mcp\<close> from 0 to 7).
\<close>

definition inputMcpFound :: "globals \<Rightarrow> bool" where
  "inputMcpFound g =
     list_ex (\<lambda>mcp. bitRead (g_mcps_found g) (uint mcp) \<and> isInputMcp g mcp)
       [0, 1, 2, 3, 4, 5, 6, 7]"

section \<open>Sample values\<close>

text \<open>
  Values for the libraries' constants and the collaborators' answers, used to evaluate the
  handlers at concrete requests. No general theorem depends on them.
\<close>

definition sample_input_lib :: input_lib where
  "sample_input_lib =
     \<lparr>BUTTON = 0, CONTACT = 1, PRESS = 2, ROTARY = 3, SECURITY = 4, SWITCH = 5, TOGGLE = 6,
      HOLD_EVENT = 15, LOW_EVENT = 10, HIGH_EVENT = 11, TAMPER_EVENT = 12, SHORT_EVENT = 13,
      FAULT_EVENT = 14\<rparr>"

definition sample_output_lib :: output_lib where
  "sample_output_lib =
     \<lparr>MOTOR = 0, RELAY = 1, TIMER = 2, RELAY_ON = 1, RELAY_OFF = 0, DEFAULT_TIMER_SECS = 60\<rparr>"

definition sample_collab :: collab where
  "sample_collab =
     \<lparr>getType = (\<lambda>mcp pin. 1), digitalRead = (\<lambda>mcp pin. 0), publishStatus = (\<lambda>doc. True)\<rparr>"

declare getMaxInputIndex_loop.simps [simp del]
declare getMaxOutputIndex_loop.simps [simp del]

section \<open>Facts about the index bounds\<close>

lemma uint_u8_of_int: "0 \<le> k \<Longrightarrow> k < 256 \<Longrightarrow> uint (word_of_int k :: u8) = k"
  by (simp add: uint_word_of_int_eq take_bit_int_eq_self)

lemma bitRead_lt8: "bitRead (f :: u8) j \<Longrightarrow> 0 \<le> j \<Longrightarrow> j < 8"
  using bit_imp_le_length [of f "nat j"] by (simp add: bitRead_def)

lemma uint_minOut: "uint (g_mcp_output_start g) \<le> 8 \<Longrightarrow>
  uint (getMinOutputIndex g) = uint (g_mcp_output_start g) * 16 + 1"
  unfolding getMinOutputIndex_def MCP_PIN_COUNT_def
  by (rule uint_u8_of_int) simp_all

lemma in_loop_none:
  "(\<And>j. 0 \<le> j \<Longrightarrow> j \<le> i \<Longrightarrow> \<not> bitRead (g_mcps_found g) j)
   \<Longrightarrow> getMaxInputIndex_loop g i = getMinInputIndex"
proof (induction g i rule: getMaxInputIndex_loop.induct)
  case (1 g i)
  show ?case
  proof (cases "0 \<le> i")
    case True
    with 1 have "\<not> bitRead (g_mcps_found g) i" by simp
    moreover from 1 True this have "getMaxInputIndex_loop g (i - 1) = getMinInputIndex" by simp
    ultimately show ?thesis using True by (subst getMaxInputIndex_loop.simps) simp
  next
    case False
    then show ?thesis by (subst getMaxInputIndex_loop.simps) simp
  qed
qed

lemma in_loop_some:
  "0 \<le> j \<Longrightarrow> j \<le> i \<Longrightarrow> i \<le> 7 \<Longrightarrow> bitRead (g_mcps_found g) j
   \<Longrightarrow> 16 \<le> uint (getMaxInputIndex_loop g i) \<and> uint (getMaxInputIndex_loop g i) \<le> (i + 1) * 16"
proof (induction g i rule: getMaxInputIndex_loop.induct)
  case (1 g i)
  have i0: "0 \<le> i" using 1 by simp
  show ?case
  proof (cases "bitRead (g_mcps_found g) i")
    case True
    have "getMaxInputIndex_loop g i = word_of_int ((i + 1) * 16)"
      using True i0 by (subst getMaxInputIndex_loop.simps) (simp add: MCP_PIN_COUNT_def)
    moreover have "uint (word_of_int ((i + 1) * 16) :: u8) = (i + 1) * 16"
      using i0 1(4) by (intro uint_u8_of_int) auto
    ultimately show ?thesis using i0 by simp
  next
    case False
    with 1 have "j \<noteq> i" by auto
    with 1 have "j \<le> i - 1" by simp
    with 1 i0 False have "16 \<le> uint (getMaxInputIndex_loop g (i - 1))
       \<and> uint (getMaxInputIndex_loop g (i - 1)) \<le> (i - 1 + 1) * 16" by simp
    moreover have "getMaxInputIndex_loop g i = getMaxInputIndex_loop g (i - 1)"
      using False i0 by (subst getMaxInputIndex_loop.simps) simp
    ultimately show ?thesis by simp
  qed
qed

lemma inputMcpFound_iff:
  "inputMcpFound g \<longleftrightarrow> (\<exists>j. 0 \<le> j \<and> j < uint (g_mcp_output_start g) \<and> bitRead (g_mcps_found g) j)"
proof
  assume "inputMcpFound g"
  then obtain mcp :: u8 where "bitRead (g_mcps_found g) (uint mcp)" "mcp < g_mcp_output_start g"
    unfolding inputMcpFound_def list_ex_iff isInputMcp_def by blast
  then show "\<exists>j. 0 \<le> j \<and> j < uint (g_mcp_output_start g) \<and> bitRead (g_mcps_found g) j"
    by (intro exI [of _ "uint mcp"]) (simp add: word_less_def)
next
  assume "\<exists>j. 0 \<le> j \<and> j < uint (g_mcp_output_start g) \<and> bitRead (g_mcps_found g) j"
  then obtain j where j: "0 \<le> j" "j < uint (g_mcp_output_start g)" "bitRead (g_mcps_found g) j"
    by blast
  then have "j < 8" using bitRead_lt8 by blast
  with j have "j = 0 \<or> j = 1 \<or> j = 2 \<or> j = 3 \<or> j = 4 \<or> j = 5 \<or> j = 6 \<or> j = 7" by arith
  then show "inputMcpFound g" using j
    by (elim disjE) (simp_all add: inputMcpFound_def isInputMcp_def word_less_def)
qed

lemma valid_start_le8:
  "g_mcp_output_start g \<in> {0, 2, 4, 6, 8} \<Longrightarrow> uint (g_mcp_output_start g) \<le> 8"
  by auto

text \<open>The last input index in both cases of the scan.\<close>

lemma maxIn_not_found:
  "\<not> inputMcpFound g \<Longrightarrow> getMaxInputIndex g = getMinInputIndex"
  unfolding getMaxInputIndex_def inputMcpFound_iff
  by (rule in_loop_none) auto

lemma maxIn_found:
  assumes "inputMcpFound g" "uint (g_mcp_output_start g) \<le> 8"
  shows "16 \<le> uint (getMaxInputIndex g) \<and> uint (getMaxInputIndex g) \<le> uint (g_mcp_output_start g) * 16"
proof -
  from assms(1) obtain j where j: "0 \<le> j" "j < uint (g_mcp_output_start g)" "bitRead (g_mcps_found g) j"
    unfolding inputMcpFound_iff by blast
  have "16 \<le> uint (getMaxInputIndex_loop g (uint (g_mcp_output_start g) - 1))
      \<and> uint (getMaxInputIndex_loop g (uint (g_mcp_output_start g) - 1))
          \<le> (uint (g_mcp_output_start g) - 1 + 1) * 16"
    using j assms(2) by (intro in_loop_some [of j]) auto
  then show ?thesis by (simp add: getMaxInputIndex_def)
qed

lemma out_loop_ge:
  assumes "i \<le> 7" "uint (g_mcp_output_start g) \<le> 8"
    "g_mcp_output_pins g = 8 \<or> g_mcp_output_pins g = 16"
  shows "uint (getMinOutputIndex g) \<le> uint (getMaxOutputIndex_loop g i)"
  using assms
proof (induction g i rule: getMaxOutputIndex_loop.induct)
  case (1 g i)
  have m: "uint (getMinOutputIndex g) = uint (g_mcp_output_start g) * 16 + 1"
    using 1(3) by (rule uint_minOut)
  show ?case
  proof (cases "uint (g_mcp_output_start g) \<le> i")
    case False
    then show ?thesis by (subst getMaxOutputIndex_loop.simps) simp
  next
    case True
    show ?thesis
    proof (cases "bitRead (g_mcps_found g) i")
      case False
      with True 1 have "uint (getMinOutputIndex g) \<le> uint (getMaxOutputIndex_loop g (i - 1))"
        by simp
      then show ?thesis using True False by (subst getMaxOutputIndex_loop.simps) simp
    next
      case bit: True
      define r where "r = (i + 1 - uint (g_mcp_output_start g)) * uint (g_mcp_output_pins g)
                         + uint (getMinOutputIndex g) - 1"
      have n: "uint (g_mcp_output_pins g) = 8 \<or> uint (g_mcp_output_pins g) = 16"
        using 1(4) by auto
      have r: "uint (getMinOutputIndex g) \<le> r \<and> r < 256"
        using n True 1(2) m uint_ge_0 [of "g_mcp_output_start g"] unfolding r_def by auto
      moreover have "0 \<le> uint (getMinOutputIndex g)" by simp
      ultimately have "uint (word_of_int r :: u8) = r"
        by (intro uint_u8_of_int) linarith+
      moreover have "getMaxOutputIndex_loop g i = word_of_int r"
        using True bit unfolding r_def by (subst getMaxOutputIndex_loop.simps) simp
      ultimately show ?thesis using r by simp
    qed
  qed
qed


lemma sdiv_nonneg: "0 \<le> a \<Longrightarrow> 0 < b \<Longrightarrow> (a :: int) sdiv b = a div b"
  by (simp add: signed_divide_int_def sgn_if)

lemma smod_nonneg: "0 \<le> a \<Longrightarrow> 0 < b \<Longrightarrow> (a :: int) smod b = a mod b"
  by (simp add: signed_modulo_int_def sgn_if)

lemma div_offset: "0 \<le> p \<Longrightarrow> p < n \<Longrightarrow> (a * n + p) div n = (a :: int)"
  by (simp add: div_pos_pos_trivial)

lemma mod_offset: "0 \<le> p \<Longrightarrow> p < n \<Longrightarrow> (a * n + p) mod n = (p :: int)"
  by (simp add: mod_pos_pos_trivial)

lemma uint_outputEvent_index:
  assumes s: "uint slot \<le> 7" and b: "g_mcp_output_start g \<le> slot"
    and p: "pin < g_mcp_output_pins g"
    and n: "g_mcp_output_pins g = 8 \<or> g_mcp_output_pins g = 16"
  shows "uint (outputEvent_index g slot pin) =
           (uint slot - uint (g_mcp_output_start g)) * uint (g_mcp_output_pins g)
           + uint (getMinOutputIndex g) + uint pin"
proof -
  have b': "uint (g_mcp_output_start g) \<le> uint slot" using b by (simp add: word_le_def)
  have p': "uint pin < uint (g_mcp_output_pins g)" using p by (simp add: word_less_def)
  have m: "uint (getMinOutputIndex g) = uint (g_mcp_output_start g) * 16 + 1"
    using s b' by (intro uint_minOut) simp
  define r where "r = (uint slot - uint (g_mcp_output_start g)) * uint (g_mcp_output_pins g)
                       + uint (getMinOutputIndex g) - 1 + uint pin"
  have n': "uint (g_mcp_output_pins g) = 8 \<or> uint (g_mcp_output_pins g) = 16"
    using n by auto
  have r: "0 \<le> r \<and> r \<le> 127"
    using n' s b' p' m uint_ge_0 [of pin] uint_ge_0 [of "g_mcp_output_start g"]
    unfolding r_def by auto
  have "uint (word_of_int r :: u8) = r" using r by (intro uint_u8_of_int) auto
  then have "uint (word_of_int r + 1 :: u8) = r + 1"
    using r by (simp add: uint_word_ariths take_bit_int_eq_self)
  then show ?thesis
    unfolding outputEvent_index_def Let_def r_def by simp
qed


section \<open>Facts about the handlers\<close>

lemma outp_nz: "outpIndex2Mcp g i = Inr m \<Longrightarrow> g_mcp_output_pins g \<noteq> 0"
  by (auto simp: outpIndex2Mcp_def split: if_splits)

lemma parseOutputType_Some:
  "\<exists>t out. parseOutputType L (Some s) = Inr (t, out)
      \<and> (out = [] \<or> out = [Println ''[stio] invalid output type''])"
  by (simp add: parseOutputType_def)

lemma type_block:
  assumes "cfg_type json = Absent \<or> (\<exists>s. cfg_type json = Value (Some s))"
  shows "\<exists>out1. jsonOutputConfig_type L json mcp pin = Inr out1
           \<and> filter isSetTimer out1 = [] \<and> filter isSetInterlock out1 = []"
proof (cases "cfg_type json = Absent")
  case True
  then show ?thesis by (simp add: jsonOutputConfig_type_def)
next
  case False
  with assms obtain s where s: "cfg_type json = Value (Some s)" by blast
  obtain t out where p: "parseOutputType L (Some s) = Inr (t, out)"
      "out = [] \<or> out = [Println ''[stio] invalid output type'']"
    using parseOutputType_Some by blast
  show ?thesis using s p by (auto simp: jsonOutputConfig_type_def)
qed

lemma timer_block:
  "filter isSetInterlock (jsonOutputConfig_timer L json mcp pin) = []"
  "filter isSetTimer (jsonOutputConfig_timer L json mcp pin) = jsonOutputConfig_timer L json mcp pin"
  by (simp_all add: jsonOutputConfig_timer_def split: field.splits)

lemma interlock_block:
  assumes "g_mcp_output_pins g \<noteq> 0"
  shows "snd (jsonOutputConfig_interlock g json mcp pin) = None"
    and "filter isSetTimer (fst (jsonOutputConfig_interlock g json mcp pin)) = []"
  using assms
  by (simp_all add: jsonOutputConfig_interlock_def outpIndex2Mcp_def outpIndex2Pin_def
      split: field.splits)

lemma jsonOutputConfig_valid:
  assumes "getOutputIndex g (cfg_index json) = (index, out0)" "index \<noteq> 0"
    "outpIndex2Mcp g (uint index) = Inr mcp" "outpIndex2Pin g (uint index) = Inr pin"
    "jsonOutputConfig_type L json mcp pin = Inr out1"
  shows "jsonOutputConfig L g json =
           (out1 @ jsonOutputConfig_timer L json mcp pin
                 @ fst (jsonOutputConfig_interlock g json mcp pin),
            snd (jsonOutputConfig_interlock g json mcp pin))"
  using assms by (simp add: jsonOutputConfig_def split_beta)


text \<open>
  What the handlers do with an entry they can run to the end: a valid index, a non-zero
  number of pins per chip (the index resolves) and a \<open>type\<close> member that is absent or a
  string.
\<close>

lemma jsonOutputConfig_timer_effect:
  assumes "getOutputIndex g (cfg_index json) = (index, out0)" "index \<noteq> 0"
    "outpIndex2Mcp g (uint index) = Inr mcp" "outpIndex2Pin g (uint index) = Inr pin"
    "cfg_type json = Absent \<or> (\<exists>s. cfg_type json = Value (Some s))"
  shows "snd (jsonOutputConfig L g json) = None
       \<and> filter isSetTimer (fst (jsonOutputConfig L g json)) =
           (case cfg_timerSeconds json of
              Absent \<Rightarrow> []
            | Null \<Rightarrow> [SetTimer mcp pin (DEFAULT_TIMER_SECS L)]
            | Value secs \<Rightarrow> [SetTimer mcp pin secs])"
proof -
  have nz: "g_mcp_output_pins g \<noteq> 0" using assms(3) by (rule outp_nz)
  obtain out1 where o: "jsonOutputConfig_type L json mcp pin = Inr out1"
      "filter isSetTimer out1 = []"
    using type_block [OF assms(5)] by blast
  have "jsonOutputConfig L g json =
           (out1 @ jsonOutputConfig_timer L json mcp pin
                 @ fst (jsonOutputConfig_interlock g json mcp pin),
            snd (jsonOutputConfig_interlock g json mcp pin))"
    using assms(1-4) o(1) by (rule jsonOutputConfig_valid)
  then show ?thesis
    using o(2) interlock_block [OF nz] timer_block(2)
    by (simp add: jsonOutputConfig_timer_def)
qed


lemma jsonOutputConfig_interlock_effect:
  assumes "getOutputIndex g (cfg_index json) = (index, out0)" "index \<noteq> 0"
    "outpIndex2Mcp g (uint index) = Inr mcp" "outpIndex2Pin g (uint index) = Inr pin"
    "cfg_type json = Absent \<or> (\<exists>s. cfg_type json = Value (Some s))"
    "cfg_interlockIndex json = Value interlock_index"
    "outpIndex2Mcp g (uint interlock_index) = Inr interlock_mcp"
    "outpIndex2Pin g (uint interlock_index) = Inr interlock_pin"
  shows "snd (jsonOutputConfig L g json) = None
       \<and> filter isSetInterlock (fst (jsonOutputConfig L g json)) =
           (if interlock_mcp = mcp then [SetInterlock mcp pin interlock_pin] else [])
       \<and> (interlock_mcp \<noteq> mcp \<longrightarrow>
            last (fst (jsonOutputConfig L g json)) = Println ''[stio] lock must be with pin on same mcp'')"
proof -
  obtain out1 where o: "jsonOutputConfig_type L json mcp pin = Inr out1"
      "filter isSetInterlock out1 = []"
    using type_block [OF assms(5)] by blast
  have i: "jsonOutputConfig_interlock g json mcp pin =
      (if interlock_mcp = mcp then ([SetInterlock mcp pin interlock_pin], None)
       else ([Println ''[stio] lock must be with pin on same mcp''], None))"
    using assms(6-8) by (simp add: jsonOutputConfig_interlock_def)
  have "jsonOutputConfig L g json =
           (out1 @ jsonOutputConfig_timer L json mcp pin
                 @ fst (jsonOutputConfig_interlock g json mcp pin),
            snd (jsonOutputConfig_interlock g json mcp pin))"
    using assms(1-4) o(1) by (rule jsonOutputConfig_valid)
  then show ?thesis
    using o(2) i timer_block(1) by simp
qed


lemma jsonOutputCommand_mismatch_effect:
  assumes "getOutputIndex g (cmd_index json) = (index, out0)" "index \<noteq> 0"
    "outpIndex2Mcp g (uint index) = Inr mcp" "outpIndex2Pin g (uint index) = Inr pin"
    "cmd_type json = Value (Some s)"
    "parseOutputType L (Some s) = Inr (parsed, out1)"
    "parsed \<noteq> getType C mcp pin"
  shows "jsonOutputCommand L C g json =
           (out1 @ [Println ''[stio] command type doesn't match configured type''], None)
       \<and> list_all isPrintln (fst (jsonOutputCommand L C g json))"
proof -
  have "out1 = [] \<or> out1 = [Println ''[stio] invalid output type'']"
    using assms(6) parseOutputType_Some [of L s] by auto
  then show ?thesis
    using assms by (auto simp: jsonOutputCommand_def)
qed


lemma jsonIoConfig_valid:
  "g_mcp_output_start g \<in> {0, 2, 4, 6, 8} \<Longrightarrow> jsonIoConfig g c = Inr (g', out)
   \<Longrightarrow> g_mcp_output_start g' \<in> {0, 2, 4, 6, 8}"
  by (auto simp: jsonIoConfig_def split: option.splits if_splits)

section \<open>Index ranges\<close>

text \<open>
  C7. With the boundary at chip 4, 16 pins per output chip and all 8 chips present, the
  first output index is 65, the last output index is 128 and the last input index is 64.
\<close>

theorem C7_all_present_4_16:
  "getMinOutputIndex \<lparr>g_mcps_found = 255, g_mcp_output_pins = 16, g_mcp_output_start = 4\<rparr> = 65
   \<and> getMaxOutputIndex \<lparr>g_mcps_found = 255, g_mcp_output_pins = 16, g_mcp_output_start = 4\<rparr> = 128
   \<and> getMaxInputIndex \<lparr>g_mcps_found = 255, g_mcp_output_pins = 16, g_mcp_output_start = 4\<rparr> = 64"
  by code_simp

text \<open>
  C2 (as amended). For every valid boundary and every bitmap, the first input index is at
  most the last input index, whether or not an input chip is present (with none present the
  last index falls back to the first, 1); it is strictly below the last input index
  exactly when at least one input chip is present.
\<close>

theorem C2_input_range:
  assumes "g_mcp_output_start g \<in> {0, 2, 4, 6, 8}"
  shows "getMinInputIndex \<le> getMaxInputIndex g
       \<and> (getMinInputIndex < getMaxInputIndex g \<longleftrightarrow> inputMcpFound g)"
proof (cases "inputMcpFound g")
  case False
  then show ?thesis by (simp add: maxIn_not_found)
next
  case True
  from maxIn_found [OF True valid_start_le8 [OF assms]]
  have "1 < uint (getMaxInputIndex g)" by simp
  then have "getMinInputIndex < getMaxInputIndex g"
    by (simp add: word_less_def getMinInputIndex_def)
  then show ?thesis using True by simp
qed

text \<open>
  The claim as stated fails: with the boundary at 4 and only the output chips 4 to 7
  present, no input chip is present and still the first input index is at most the last.
\<close>

theorem C2_input_range_counterexample:
  "getMinInputIndex \<le> getMaxInputIndex \<lparr>g_mcps_found = 240, g_mcp_output_pins = 16, g_mcp_output_start = 4\<rparr>
   \<and> \<not> inputMcpFound \<lparr>g_mcps_found = 240, g_mcp_output_pins = 16, g_mcp_output_start = 4\<rparr>"
  by code_simp

theorem C2_input_range_witness:
  "getMinInputIndex \<le> getMaxInputIndex \<lparr>g_mcps_found = 255, g_mcp_output_pins = 16, g_mcp_output_start = 4\<rparr>
   \<and> getMinInputIndex < getMaxInputIndex \<lparr>g_mcps_found = 255, g_mcp_output_pins = 16, g_mcp_output_start = 4\<rparr>
   \<and> inputMcpFound \<lparr>g_mcps_found = 255, g_mcp_output_pins = 16, g_mcp_output_start = 4\<rparr>"
proof -
  have i: "inputMcpFound \<lparr>g_mcps_found = 255, g_mcp_output_pins = 16, g_mcp_output_start = 4\<rparr>"
    by code_simp
  show ?thesis
    using C2_input_range [of "\<lparr>g_mcps_found = 255, g_mcp_output_pins = 16, g_mcp_output_start = 4\<rparr>"] i
    by simp
qed


text \<open>
  C4 (as amended). For every valid boundary, 8 or 16 pins per output chip and every bitmap,
  the input index range and the output index range have no integer in common exactly when
  the boundary is not 0; so for the boundaries 2, 4, 6 and 8 the ranges never overlap.
\<close>

theorem C4_ranges_disjoint:
  assumes v: "g_mcp_output_start g \<in> {0, 2, 4, 6, 8}"
    and n: "g_mcp_output_pins g = 8 \<or> g_mcp_output_pins g = 16"
  shows "({uint getMinInputIndex..uint (getMaxInputIndex g)}
            \<inter> {uint (getMinOutputIndex g)..uint (getMaxOutputIndex g)} = {})
         \<longleftrightarrow> g_mcp_output_start g \<noteq> 0"
proof (cases "g_mcp_output_start g = 0")
  case True
  then have nf: "\<not> inputMcpFound g" by (simp add: inputMcpFound_iff)
  have le8: "uint (g_mcp_output_start g) \<le> 8" using True by simp
  have "uint (getMaxInputIndex g) = 1"
    using maxIn_not_found [OF nf] by (simp add: getMinInputIndex_def)
  moreover have "uint (getMinOutputIndex g) = 1" using uint_minOut [OF le8] True by simp
  moreover have "uint (getMinOutputIndex g) \<le> uint (getMaxOutputIndex g)"
    unfolding getMaxOutputIndex_def using le8 n by (intro out_loop_ge) auto
  ultimately have "1 \<in> {uint getMinInputIndex..uint (getMaxInputIndex g)}
            \<inter> {uint (getMinOutputIndex g)..uint (getMaxOutputIndex g)}"
    by (simp add: getMinInputIndex_def)
  then show ?thesis using True by blast
next
  case False
  have le8: "uint (g_mcp_output_start g) \<le> 8" by (rule valid_start_le8 [OF v])
  have ge2: "2 \<le> uint (g_mcp_output_start g)" using v False by auto
  have "uint (getMaxInputIndex g) \<le> uint (g_mcp_output_start g) * 16"
  proof (cases "inputMcpFound g")
    case True
    then show ?thesis using maxIn_found [OF True le8] by simp
  next
    case False
    then show ?thesis using maxIn_not_found [OF False] ge2 by (simp add: getMinInputIndex_def)
  qed
  then have "uint (getMaxInputIndex g) < uint (getMinOutputIndex g)"
    using uint_minOut [OF le8] by simp
  then show ?thesis using False by auto
qed

text \<open>
  The claim as stated fails at the boundary 0 (all chips are outputs): the input range
  falls back to the single index 1, which is also the first output index.
\<close>

theorem C4_ranges_disjoint_counterexample:
  "1 \<in> {uint getMinInputIndex..uint (getMaxInputIndex \<lparr>g_mcps_found = 255, g_mcp_output_pins = 16, g_mcp_output_start = 0\<rparr>)}
      \<inter> {uint (getMinOutputIndex \<lparr>g_mcps_found = 255, g_mcp_output_pins = 16, g_mcp_output_start = 0\<rparr>)
          ..uint (getMaxOutputIndex \<lparr>g_mcps_found = 255, g_mcp_output_pins = 16, g_mcp_output_start = 0\<rparr>)}"
  by code_simp

theorem C4_ranges_disjoint_witness:
  "{uint getMinInputIndex..uint (getMaxInputIndex \<lparr>g_mcps_found = 255, g_mcp_output_pins = 16, g_mcp_output_start = 4\<rparr>)}
      \<inter> {uint (getMinOutputIndex \<lparr>g_mcps_found = 255, g_mcp_output_pins = 16, g_mcp_output_start = 4\<rparr>)
          ..uint (getMaxOutputIndex \<lparr>g_mcps_found = 255, g_mcp_output_pins = 16, g_mcp_output_start = 4\<rparr>)} = {}"
  using C4_ranges_disjoint [of "\<lparr>g_mcps_found = 255, g_mcp_output_pins = 16, g_mcp_output_start = 4\<rparr>"]
  by simp

section \<open>Round trip of output indices\<close>

text \<open>
  C3. For a present chip on the output side of the boundary and a pin below the number of
  pins per output chip (8 or 16), the index that the output event path computes maps back,
  through \<open>outpIndex2Mcp\<close> and \<open>outpIndex2Pin\<close>, to the same chip and pin.
\<close>

theorem C3_output_round_trip:
  assumes pr: "bitRead (g_mcps_found g) (uint slot)" and b: "g_mcp_output_start g \<le> slot"
    and p: "pin < g_mcp_output_pins g"
    and n: "g_mcp_output_pins g = 8 \<or> g_mcp_output_pins g = 16"
  shows "outpIndex2Mcp g (uint (outputEvent_index g slot pin)) = Inr slot
       \<and> outpIndex2Pin g (uint (outputEvent_index g slot pin)) = Inr pin"
proof -
  have s: "uint slot \<le> 7" using bitRead_lt8 [OF pr] by simp
  have b': "uint (g_mcp_output_start g) \<le> uint slot" using b by (simp add: word_le_def)
  have p': "uint pin < uint (g_mcp_output_pins g)" using p by (simp add: word_less_def)
  have n': "uint (g_mcp_output_pins g) = 8 \<or> uint (g_mcp_output_pins g) = 16"
    using n by auto
  have nz: "g_mcp_output_pins g \<noteq> 0" using n by auto
  define d where "d = uint (outputEvent_index g slot pin) - uint (getMinOutputIndex g)"
  have d: "d = (uint slot - uint (g_mcp_output_start g)) * uint (g_mcp_output_pins g) + uint pin"
    unfolding d_def using uint_outputEvent_index [OF s b p n] by simp
  have d0: "0 \<le> d" using d b' n' by auto
  have "d div uint (g_mcp_output_pins g) = uint slot - uint (g_mcp_output_start g)"
    unfolding d using p' by (intro div_offset) simp_all
  moreover have "d mod uint (g_mcp_output_pins g) = uint pin"
    unfolding d using p' by (intro mod_offset) simp_all
  ultimately have "d sdiv uint (g_mcp_output_pins g) + uint (g_mcp_output_start g) = uint slot"
    and "d smod uint (g_mcp_output_pins g) = uint pin"
    using d0 n' by (auto simp: sdiv_nonneg smod_nonneg)
  then show ?thesis
    using nz unfolding outpIndex2Mcp_def outpIndex2Pin_def d_def [symmetric] by simp
qed

theorem C3_output_round_trip_witness:
  "outpIndex2Mcp \<lparr>g_mcps_found = 255, g_mcp_output_pins = 8, g_mcp_output_start = 4\<rparr>
     (uint (outputEvent_index \<lparr>g_mcps_found = 255, g_mcp_output_pins = 8, g_mcp_output_start = 4\<rparr> 5 3)) = Inr 5
   \<and> outpIndex2Pin \<lparr>g_mcps_found = 255, g_mcp_output_pins = 8, g_mcp_output_start = 4\<rparr>
     (uint (outputEvent_index \<lparr>g_mcps_found = 255, g_mcp_output_pins = 8, g_mcp_output_start = 4\<rparr> 5 3)) = Inr 3"
proof -
  have "bitRead (255 :: u8) (uint (5 :: u8))" by code_simp
  then show ?thesis
    using C3_output_round_trip [of "\<lparr>g_mcps_found = 255, g_mcp_output_pins = 8, g_mcp_output_start = 4\<rparr>" 5 3]
    by simp
qed


section \<open>Input event records\<close>

text \<open>
  C10. The record of an input event carries \<open>port\<close> and \<open>channel\<close> members with
  \<open>port = (index - 1) div 4 + 1\<close> and \<open>channel = index - (port - 1) * 4\<close>; for every
  index from 1 on, the channel lies between 1 and 4 and
  \<open>(port - 1) * 4 + channel = index\<close>. The record is what \<open>publishInputEvent\<close> hands to
  the transport.
\<close>

theorem C10_port_channel:
  assumes "1 \<le> index"
  shows "PublishStatus (publishInputEvent_json L index type state)
           \<in> set (publishInputEvent L C index type state)
       \<and> (\<exists>port channel.
           map_of (publishInputEvent_json L index type state) ''port'' = Some (JInt port)
         \<and> map_of (publishInputEvent_json L index type state) ''channel'' = Some (JInt channel)
         \<and> port = (uint index - 1) div 4 + 1
         \<and> channel = uint index - (port - 1) * 4
         \<and> 1 \<le> channel \<and> channel \<le> 4
         \<and> (port - 1) * 4 + channel = uint index)"
proof -
  have i1: "1 \<le> uint index" using assms by (simp add: word_le_def)
  have i2: "uint index < 256" using uint_lt2p [of index] by simp
  define port where "port = (uint index - 1) div 4 + 1"
  define channel where "channel = uint index - (port - 1) * 4"
  have sd: "(uint index - 1) sdiv 4 = (uint index - 1) div 4"
    using i1 by (intro sdiv_nonneg) simp_all
  have pr: "0 \<le> port \<and> port < 256" using i1 i2 unfolding port_def by auto
  have up: "uint (word_of_int port :: u8) = port" using pr by (intro uint_u8_of_int) auto
  have ch: "1 \<le> channel \<and> channel \<le> 4" unfolding channel_def port_def by presburger
  have uc: "uint (word_of_int channel :: u8) = channel" using ch by (intro uint_u8_of_int) auto
  have "map_of (publishInputEvent_json L index type state) ''port'' = Some (JInt port)"
    unfolding publishInputEvent_json_def Let_def sd port_def [symmetric] up by simp
  moreover have "map_of (publishInputEvent_json L index type state) ''channel'' = Some (JInt channel)"
    unfolding publishInputEvent_json_def Let_def sd port_def [symmetric] up
      channel_def [symmetric] uc by simp
  moreover have "PublishStatus (publishInputEvent_json L index type state)
           \<in> set (publishInputEvent L C index type state)"
    by (simp add: publishInputEvent_def Let_def)
  ultimately show ?thesis using ch port_def channel_def by auto
qed

theorem C10_port_channel_witness:
  "map_of (publishInputEvent_json sample_input_lib 6 5 10) ''port'' = Some (JInt 2)
   \<and> map_of (publishInputEvent_json sample_input_lib 6 5 10) ''channel'' = Some (JInt 2)"
  using C10_port_channel [of 6 sample_input_lib 5 10 sample_collab]
  by auto

section \<open>Timer configuration\<close>

text \<open>
  C1 (as amended). For an output configuration entry with a valid index, when the number
  of pins per output chip is not 0 and the entry's \<open>type\<close> member is absent or a
  string, the handler runs to its end and makes exactly one timer call when
  \<open>timerSeconds\<close> is present: with an explicit null it sets the timer of the pin the
  index resolves to to \<open>DEFAULT_TIMER_SECS\<close>; with any other value, 0 included, it
  passes that value to \<open>setTimer\<close> unchecked: the handler enforces no minimum.
\<close>

theorem C1_timer_seconds:
  assumes "getOutputIndex g (cfg_index json) = (index, out0)" "index \<noteq> 0"
    "g_mcp_output_pins g \<noteq> 0"
    "cfg_type json = Absent \<or> (\<exists>s. cfg_type json = Value (Some s))"
  shows "\<exists>mcp pin.
           outpIndex2Mcp g (uint index) = Inr mcp \<and> outpIndex2Pin g (uint index) = Inr pin
         \<and> snd (jsonOutputConfig L g json) = None
         \<and> filter isSetTimer (fst (jsonOutputConfig L g json)) =
             (case cfg_timerSeconds json of
                Absent \<Rightarrow> []
              | Null \<Rightarrow> [SetTimer mcp pin (DEFAULT_TIMER_SECS L)]
              | Value secs \<Rightarrow> [SetTimer mcp pin secs])"
proof -
  obtain mcp pin where r: "outpIndex2Mcp g (uint index) = Inr mcp"
      "outpIndex2Pin g (uint index) = Inr pin"
    using assms(3) by (simp add: outpIndex2Mcp_def outpIndex2Pin_def)
  show ?thesis
    using r jsonOutputConfig_timer_effect [OF assms(1,2) r assms(4), of L] by blast
qed

text \<open>
  The claim as stated fails. With the boundary at 4 and 16 pins per chip, for the valid
  index 65 and \<open>timerSeconds = 0\<close> the handler does not reject the update but calls
  \<open>setTimer\<close> with 0 for chip 4, pin 0. The two conditions of the amended statement are
  needed: for the same index and \<open>timerSeconds = null\<close>, a null \<open>type\<close> member or 0 pins
  per chip stop the handler on a fault before any call.
\<close>

theorem C1_timer_seconds_counterexample:
  "fst (getOutputIndex \<lparr>g_mcps_found = 255, g_mcp_output_pins = 16, g_mcp_output_start = 4\<rparr>
         (cfg_index \<lparr>cfg_index = Value 65, cfg_type = Absent, cfg_timerSeconds = Value 0,
                      cfg_interlockIndex = Absent\<rparr>)) = 65
   \<and> jsonOutputConfig sample_output_lib
        \<lparr>g_mcps_found = 255, g_mcp_output_pins = 16, g_mcp_output_start = 4\<rparr>
        \<lparr>cfg_index = Value 65, cfg_type = Absent, cfg_timerSeconds = Value 0,
         cfg_interlockIndex = Absent\<rparr>
      = ([SetTimer 4 0 0], None)
   \<and> jsonOutputConfig sample_output_lib
        \<lparr>g_mcps_found = 255, g_mcp_output_pins = 16, g_mcp_output_start = 4\<rparr>
        \<lparr>cfg_index = Value 65, cfg_type = Null, cfg_timerSeconds = Null,
         cfg_interlockIndex = Absent\<rparr>
      = ([], Some NullPointer)
   \<and> fst (getOutputIndex \<lparr>g_mcps_found = 15, g_mcp_output_pins = 0, g_mcp_output_start = 4\<rparr>
         (Value 65)) = 65
   \<and> jsonOutputConfig sample_output_lib
        \<lparr>g_mcps_found = 15, g_mcp_output_pins = 0, g_mcp_output_start = 4\<rparr>
        \<lparr>cfg_index = Value 65, cfg_type = Absent, cfg_timerSeconds = Null,
         cfg_interlockIndex = Absent\<rparr>
      = ([], Some DivideByZero)"
  by code_simp

theorem C1_timer_seconds_witness:
  "snd (jsonOutputConfig sample_output_lib
        \<lparr>g_mcps_found = 255, g_mcp_output_pins = 16, g_mcp_output_start = 4\<rparr>
        \<lparr>cfg_index = Value 65, cfg_type = Absent, cfg_timerSeconds = Null,
         cfg_interlockIndex = Absent\<rparr>) = None
   \<and> filter isSetTimer (fst (jsonOutputConfig sample_output_lib
        \<lparr>g_mcps_found = 255, g_mcp_output_pins = 16, g_mcp_output_start = 4\<rparr>
        \<lparr>cfg_index = Value 65, cfg_type = Absent, cfg_timerSeconds = Null,
         cfg_interlockIndex = Absent\<rparr>)) = [SetTimer 4 0 60]"
proof -
  have h1: "getOutputIndex \<lparr>g_mcps_found = 255, g_mcp_output_pins = 16, g_mcp_output_start = 4\<rparr>
              (cfg_index \<lparr>cfg_index = Value 65, cfg_type = Absent, cfg_timerSeconds = Null,
                 cfg_interlockIndex = Absent\<rparr>) = (65, [])"
    by code_simp
  have h2: "(65 :: u8) \<noteq> 0" by simp
  have h3: "outpIndex2Mcp \<lparr>g_mcps_found = 255, g_mcp_output_pins = 16, g_mcp_output_start = 4\<rparr>
              (uint (65 :: u8)) = Inr 4"
    by code_simp
  have h4: "outpIndex2Pin \<lparr>g_mcps_found = 255, g_mcp_output_pins = 16, g_mcp_output_start = 4\<rparr>
              (uint (65 :: u8)) = Inr 0"
    by code_simp
  show ?thesis
    using C1_timer_seconds [OF h1 h2, of sample_output_lib] h3 h4
    by (auto simp: sample_output_lib_def)
qed

section \<open>Interlock configuration\<close>

text \<open>
  C5. The claim fails on the code for an entry whose \<open>type\<close> member is present but not
  a string. With the boundary at 4, 16 pins per chip and all chips present, the index 65
  is valid and the interlock index 66 resolves to the entry's own chip 4 (pin 1). With no
  \<open>type\<close> member the handler calls \<open>setInterlock\<close> for pin 0 with pin 1, as the claim
  says; with \<open>type = null\<close> (or a number) the same entry stops
  the handler on a null-pointer fault in the \<open>type\<close> block, and \<open>setInterlock\<close> is not
  called.
\<close>

theorem C5_interlock_null_type:
  "fst (getOutputIndex \<lparr>g_mcps_found = 255, g_mcp_output_pins = 16, g_mcp_output_start = 4\<rparr>
         (Value 65)) = 65
   \<and> outpIndex2Mcp \<lparr>g_mcps_found = 255, g_mcp_output_pins = 16, g_mcp_output_start = 4\<rparr> 65 = Inr 4
   \<and> outpIndex2Mcp \<lparr>g_mcps_found = 255, g_mcp_output_pins = 16, g_mcp_output_start = 4\<rparr> 66 = Inr 4
   \<and> jsonOutputConfig sample_output_lib
        \<lparr>g_mcps_found = 255, g_mcp_output_pins = 16, g_mcp_output_start = 4\<rparr>
        \<lparr>cfg_index = Value 65, cfg_type = Absent, cfg_timerSeconds = Absent,
         cfg_interlockIndex = Value 66\<rparr>
      = ([SetInterlock 4 0 1], None)
   \<and> jsonOutputConfig sample_output_lib
        \<lparr>g_mcps_found = 255, g_mcp_output_pins = 16, g_mcp_output_start = 4\<rparr>
        \<lparr>cfg_index = Value 65, cfg_type = Null, cfg_timerSeconds = Absent,
         cfg_interlockIndex = Value 66\<rparr>
      = ([], Some NullPointer)
   \<and> jsonOutputConfig sample_output_lib
        \<lparr>g_mcps_found = 255, g_mcp_output_pins = 16, g_mcp_output_start = 4\<rparr>
        \<lparr>cfg_index = Value 65, cfg_type = Value None, cfg_timerSeconds = Absent,
         cfg_interlockIndex = Value 66\<rparr>
      = ([], Some NullPointer)"
  by code_simp

text \<open>
  C9. The interlock index is not checked against the output index range: with the
  boundary at 4, 16 pins per chip and all chips present, the entry with index 65 and
  \<open>interlockIndex = 64\<close> (below the first output index 65) resolves, by the truncating
  division of the offset \<open>-1\<close>, to the entry's own chip 4 and to pin 255, and the handler
  calls \<open>setInterlock\<close> for pin 0 with pin 255.
\<close>

theorem C9_interlock_unchecked:
  "(64 :: u8) < getMinOutputIndex \<lparr>g_mcps_found = 255, g_mcp_output_pins = 16, g_mcp_output_start = 4\<rparr>
   \<and> fst (getOutputIndex \<lparr>g_mcps_found = 255, g_mcp_output_pins = 16, g_mcp_output_start = 4\<rparr>
         (Value 65)) = 65
   \<and> outpIndex2Mcp \<lparr>g_mcps_found = 255, g_mcp_output_pins = 16, g_mcp_output_start = 4\<rparr> 65 = Inr 4
   \<and> outpIndex2Mcp \<lparr>g_mcps_found = 255, g_mcp_output_pins = 16, g_mcp_output_start = 4\<rparr> 64 = Inr 4
   \<and> outpIndex2Pin \<lparr>g_mcps_found = 255, g_mcp_output_pins = 16, g_mcp_output_start = 4\<rparr> 64 = Inr 255
   \<and> jsonOutputConfig sample_output_lib
        \<lparr>g_mcps_found = 255, g_mcp_output_pins = 16, g_mcp_output_start = 4\<rparr>
        \<lparr>cfg_index = Value 65, cfg_type = Absent, cfg_timerSeconds = Absent,
         cfg_interlockIndex = Value 64\<rparr>
      = ([SetInterlock 4 0 255], None)"
  by code_simp


section \<open>Commands\<close>

text \<open>
  C6. The claim fails on the code for a command entry whose \<open>type\<close> member is present
  but not a string. With the boundary at 4, 16 pins per chip, all chips present and pin 0
  of chip 4 configured as type 1, the entry with index 65, \<open>type = ''motor''\<close> (type 0)
  and \<open>command = ''on''\<close> is rejected with the mismatch line and nothing else, as the
  claim says; with \<open>type = null\<close> (or a number), which does not parse to the configured
  type either, the handler logs nothing and stops on a null-pointer fault.
\<close>

theorem C6_type_null:
  "fst (getOutputIndex \<lparr>g_mcps_found = 255, g_mcp_output_pins = 16, g_mcp_output_start = 4\<rparr>
         (Value 65)) = 65
   \<and> jsonOutputCommand sample_output_lib sample_collab
        \<lparr>g_mcps_found = 255, g_mcp_output_pins = 16, g_mcp_output_start = 4\<rparr>
        \<lparr>cmd_index = Value 65, cmd_type = Value (Some ''motor''), cmd_command = Value (Some ''on'')\<rparr>
      = ([Println ''[stio] command type doesn't match configured type''], None)
   \<and> jsonOutputCommand sample_output_lib sample_collab
        \<lparr>g_mcps_found = 255, g_mcp_output_pins = 16, g_mcp_output_start = 4\<rparr>
        \<lparr>cmd_index = Value 65, cmd_type = Null, cmd_command = Value (Some ''on'')\<rparr>
      = ([], Some NullPointer)
   \<and> jsonOutputCommand sample_output_lib sample_collab
        \<lparr>g_mcps_found = 255, g_mcp_output_pins = 16, g_mcp_output_start = 4\<rparr>
        \<lparr>cmd_index = Value 65, cmd_type = Value None, cmd_command = Value (Some ''on'')\<rparr>
      = ([], Some NullPointer)"
  by code_simp

section \<open>Sections of the configuration schema\<close>

text \<open>
  C8. For a valid boundary, the configuration schema has its input section
  (\<open>defaultInputType\<close>, \<open>inputs\<close>) unless the boundary is 0, and its output section
  (\<open>defaultOutputType\<close>, \<open>outputs\<close>) unless the boundary is 8.
\<close>

theorem C8_schema_sections:
  assumes "g_mcp_output_start g \<in> {0, 2, 4, 6, 8}"
  shows "(containsKey (setConfigSchema g) ''defaultInputType'' \<longleftrightarrow> g_mcp_output_start g \<noteq> 0)
       \<and> (containsKey (setConfigSchema g) ''inputs'' \<longleftrightarrow> g_mcp_output_start g \<noteq> 0)
       \<and> (containsKey (setConfigSchema g) ''defaultOutputType'' \<longleftrightarrow> g_mcp_output_start g \<noteq> 8)
       \<and> (containsKey (setConfigSchema g) ''outputs'' \<longleftrightarrow> g_mcp_output_start g \<noteq> 8)"
proof -
  have i: "isInputMcp g 0 \<longleftrightarrow> g_mcp_output_start g \<noteq> 0"
    by (simp add: isInputMcp_def word_neq_0_conv)
  have o: "isOutputMcp g (MCP_COUNT - 1) \<longleftrightarrow> g_mcp_output_start g \<noteq> 8"
    using assms by (auto simp: isOutputMcp_def isInputMcp_def MCP_COUNT_def)
  show ?thesis
    unfolding setConfigSchema_def containsKey_def i o
    by (simp add: inputConfigSchema_def outputConfigSchema_def)
qed

theorem C8_schema_sections_witness:
  "containsKey (setConfigSchema \<lparr>g_mcps_found = 255, g_mcp_output_pins = 16, g_mcp_output_start = 8\<rparr>) ''inputs''
   \<and> \<not> containsKey (setConfigSchema \<lparr>g_mcps_found = 255, g_mcp_output_pins = 16, g_mcp_output_start = 8\<rparr>) ''outputs''"
  using C8_schema_sections [of "\<lparr>g_mcps_found = 255, g_mcp_output_pins = 16, g_mcp_output_start = 8\<rparr>"]
  by simp

end
